theory Spec2Isabelle
  imports Complex_Main "HOL-Library.Sublist"
begin

section \<open>Python values\<close>

text \<open>
  A Python \<^verbatim>\<open>str\<close> is a sequence of Unicode code points and \<^verbatim>\<open>len\<close> counts code
  points, so a string is a list of code points. \<open>str_of\<close> reads an ASCII literal.
  A \<^verbatim>\<open>datetime\<close> is a reading of the clock; every call of \<^verbatim>\<open>datetime.now()\<close> is an
  argument of the operation that makes it.
\<close>

type_synonym str = "nat list"

type_synonym datetime = int

definition str_of :: "string \<Rightarrow> str" where
  "str_of s = map of_char s"

subsection \<open>Floats\<close>

text \<open>
  A Python \<^verbatim>\<open>float\<close> is an IEEE 754 binary64 value: a finite value (kept as the rational
  it denotes), an infinity or NaN. The sign of zero is not kept: no operation below
  depends on it. Comparisons follow IEEE 754: every comparison with NaN is false.
\<close>

datatype pyfloat = Finite rat | PosInf | NegInf | NaN

fun float_le :: "pyfloat \<Rightarrow> pyfloat \<Rightarrow> bool" where
  "float_le NaN y = False"
| "float_le x NaN = False"
| "float_le NegInf y = True"
| "float_le x PosInf = True"
| "float_le (Finite a) (Finite b) = (a \<le> b)"
| "float_le x y = False"

definition float_lt :: "pyfloat \<Rightarrow> pyfloat \<Rightarrow> bool" where
  "float_lt x y = (float_le x y \<and> \<not> float_le y x)"

definition float_ge :: "pyfloat \<Rightarrow> pyfloat \<Rightarrow> bool" where
  "float_ge x y = float_le y x"

definition float_gt :: "pyfloat \<Rightarrow> pyfloat \<Rightarrow> bool" where
  "float_gt x y = float_lt y x"

text \<open>
  Rounding to binary64, to nearest with ties to even. \<open>pow2 e\<close> is \<open>2\<^sup>e\<close>.
  \<open>binade x\<close> is the exponent \<open>e\<close> with \<open>2\<^sup>e \<le> |x| < 2\<^sup>e\<^sup>+\<^sup>1\<close>, kept between
  \<open>-1022\<close> (below it the values are subnormal and share the spacing \<open>2\<^sup>-\<^sup>1\<^sup>0\<^sup>7\<^sup>4\<close>) and
  \<open>1023\<close>. A value of that binade is a multiple of \<open>2\<^sup>e\<^sup>-\<^sup>5\<^sup>2\<close>; a result of magnitude
  \<open>2\<^sup>1\<^sup>0\<^sup>2\<^sup>4\<close> or more overflows to an infinity.
\<close>

definition pow2 :: "int \<Rightarrow> rat" where
  "pow2 e = (if 0 \<le> e then 2 ^ nat e else 1 / 2 ^ nat (- e))"

definition round_half_even :: "rat \<Rightarrow> int" where
  "round_half_even x =
     (let n = \<lfloor>x\<rfloor>; d = x - of_int n
      in if d < 1 / 2 then n
         else if 1 / 2 < d then n + 1
         else if even n then n else n + 1)"

fun binade_from :: "nat \<Rightarrow> int \<Rightarrow> rat \<Rightarrow> int" where
  "binade_from 0 e x = e"
| "binade_from (Suc k) e x =
     (if pow2 (e + 1) \<le> x then binade_from k (e + 1) x else e)"

definition binade :: "rat \<Rightarrow> int" where
  "binade x = binade_from 2045 (- 1022) \<bar>x\<bar>"

definition float_of_rat :: "rat \<Rightarrow> pyfloat" where
  "float_of_rat x =
     (let q = pow2 (binade x - 52);
          y = of_int (round_half_even (x / q)) * q
      in if pow2 1024 \<le> y then PosInf
         else if y \<le> - pow2 1024 then NegInf
         else Finite y)"

text \<open>
  Addition of floats, and \<^verbatim>\<open>x / n\<close> for a float \<open>x\<close> and the length \<open>n\<close> of a list
  (Python converts the int to a float first, and raises ZeroDivisionError when it is 0).
  An exception that no handler of the service catches by name is \<open>UnhandledError\<close>.
\<close>

datatype error = ValidationError | NotFound int | UnhandledError

fun float_add :: "pyfloat \<Rightarrow> pyfloat \<Rightarrow> pyfloat" where
  "float_add NaN y = NaN"
| "float_add x NaN = NaN"
| "float_add (Finite a) (Finite b) = float_of_rat (a + b)"
| "float_add PosInf NegInf = NaN"
| "float_add NegInf PosInf = NaN"
| "float_add PosInf y = PosInf"
| "float_add NegInf y = NegInf"
| "float_add (Finite a) y = y"

fun float_truediv_len :: "pyfloat \<Rightarrow> nat \<Rightarrow> error + pyfloat" where
  "float_truediv_len x 0 = Inl UnhandledError"
| "float_truediv_len x (Suc m) =
     (case float_of_rat (of_nat (Suc m)) of
        Finite b \<Rightarrow>
          Inr (case x of Finite a \<Rightarrow> float_of_rat (a / b) | _ \<Rightarrow> x)
      | _ \<Rightarrow> Inl UnhandledError)"

text \<open>
  \<^verbatim>\<open>sum(xs)\<close> starts from the int 0 and adds from the left (CPython 3.12 and later add
  a compensation term at the end; on the two prices of the seeded state the result is
  the same float). \<^verbatim>\<open>min(xs)\<close> and
  \<^verbatim>\<open>max(xs)\<close> raise ValueError on an empty list; otherwise they keep the first
  element and replace it by a later one that is strictly smaller (greater).
  \<^verbatim>\<open>round(x, 2)\<close> on a float gives the float nearest to the decimal with two places that
  is nearest to the exact value of \<open>x\<close> (ties to even on the exact value); an infinity
  or NaN rounds to itself, and so does an int.
\<close>

datatype number = PyInt int | PyFloat pyfloat

definition py_sum :: "pyfloat list \<Rightarrow> pyfloat" where
  "py_sum xs = foldl float_add (Finite 0) xs"

fun py_min :: "pyfloat list \<Rightarrow> error + pyfloat" where
  "py_min [] = Inl UnhandledError"
| "py_min (x # xs) = Inr (foldl (\<lambda>m y. if float_lt y m then y else m) x xs)"

fun py_max :: "pyfloat list \<Rightarrow> error + pyfloat" where
  "py_max [] = Inl UnhandledError"
| "py_max (x # xs) = Inr (foldl (\<lambda>m y. if float_gt y m then y else m) x xs)"

fun float_round2 :: "pyfloat \<Rightarrow> pyfloat" where
  "float_round2 (Finite a) = float_of_rat (of_int (round_half_even (a * 100)) / 100)"
| "float_round2 x = x"

fun py_round2 :: "number \<Rightarrow> number" where
  "py_round2 (PyInt n) = PyInt n"
| "py_round2 (PyFloat x) = PyFloat (float_round2 x)"

section \<open>Data model\<close>

text \<open>
  \<^verbatim>\<open>ItemBase\<close> (and \<^verbatim>\<open>ItemCreate\<close>, which adds nothing) and \<^verbatim>\<open>Item\<close>, which extends it with
  \<^verbatim>\<open>id\<close> and \<^verbatim>\<open>fecha_creacion\<close>. \<open>ItemBase_valid\<close> holds the \<^verbatim>\<open>Field\<close> constraints:
  \<^verbatim>\<open>nombre\<close> of 1 to 100 characters, \<^verbatim>\<open>descripcion\<close> absent or of at most 500 characters,
  \<^verbatim>\<open>precio\<close> greater than 0. Building an \<^verbatim>\<open>Item\<close> checks them and raises otherwise.
\<close>

record ItemBase =
  nombre :: str
  descripcion :: "str option"
  precio :: pyfloat
  disponible :: bool

type_synonym ItemCreate = ItemBase

record Item = ItemBase +
  id' :: int
  fecha_creacion :: datetime

definition ItemBase_valid :: "'a ItemBase_scheme \<Rightarrow> bool" where
  "ItemBase_valid x =
     (1 \<le> length (nombre x) \<and> length (nombre x) \<le> 100
      \<and> (case descripcion x of None \<Rightarrow> True | Some d \<Rightarrow> length d \<le> 500)
      \<and> float_gt (precio x) (Finite 0))"

definition Item_new ::
  "int \<Rightarrow> str \<Rightarrow> str option \<Rightarrow> pyfloat \<Rightarrow> bool \<Rightarrow> datetime \<Rightarrow> error + Item" where
  "Item_new i n d p a t =
     (let x = \<lparr>nombre = n, descripcion = d, precio = p, disponible = a,
                id' = i, fecha_creacion = t\<rparr>
      in if ItemBase_valid x then Inr x else Inl UnhandledError)"

text \<open>
  The state of the process: the list \<^verbatim>\<open>items_db\<close> and the counter \<^verbatim>\<open>next_id\<close>.
  \<open>seed\<close> is the state after the module is loaded; its two arguments are the two
  readings of the clock.
\<close>

record registry =
  items_db :: "Item list"
  next_id :: int

definition seed :: "datetime \<Rightarrow> datetime \<Rightarrow> registry" where
  "seed t1 t2 =
     \<lparr>items_db =
        [\<lparr>nombre = str_of ''Laptop HP'',
          descripcion = Some (str_of ''Laptop para trabajo profesional''),
          precio = float_of_rat (12005 / 10), disponible = True,
          id' = 1, fecha_creacion = t1\<rparr>,
         \<lparr>nombre = str_of ''Mouse Logitech'',
          descripcion = Some (str_of ''Mouse inal'' @ [225] @ str_of ''mbrico ergon''
                                @ [243] @ str_of ''mico''),
          precio = float_of_rat (4599 / 100), disponible = True,
          id' = 2, fecha_creacion = t2\<rparr>],
      next_id = 3\<rparr>"

section \<open>Endpoints\<close>

text \<open>
  Every endpoint takes the state and returns its result with the state after the call.
  \<^verbatim>\<open>HTTPException(404)\<close> is \<open>NotFound\<close> with the id asked for.
  \<open>first_index\<close> is \<^verbatim>\<open>next((index for index, item in enumerate(xs) if P(item)), None)\<close>;
  \<^verbatim>\<open>next((item for item in xs if P(item)), None)\<close> is \<open>find\<close>.
\<close>

fun first_index :: "('a \<Rightarrow> bool) \<Rightarrow> 'a list \<Rightarrow> nat option" where
  "first_index P [] = None"
| "first_index P (x # xs) = (if P x then Some 0 else map_option Suc (first_index P xs))"

definition obtener_items ::
  "registry \<Rightarrow> bool option \<Rightarrow> pyfloat option \<Rightarrow> pyfloat option \<Rightarrow> Item list \<times> registry" where
  "obtener_items st disponible_q precio_min precio_max =
     (let items = items_db st;
          items = (case disponible_q of None \<Rightarrow> items
                   | Some d \<Rightarrow> filter (\<lambda>item. disponible item = d) items);
          items = (case precio_min of None \<Rightarrow> items
                   | Some lo \<Rightarrow> filter (\<lambda>item. float_ge (precio item) lo) items);
          items = (case precio_max of None \<Rightarrow> items
                   | Some hi \<Rightarrow> filter (\<lambda>item. float_le (precio item) hi) items)
      in (items, st))"

definition obtener_item :: "registry \<Rightarrow> int \<Rightarrow> (error + Item) \<times> registry" where
  "obtener_item st item_id =
     (case find (\<lambda>item. id' item = item_id) (items_db st) of
        None \<Rightarrow> (Inl (NotFound item_id), st)
      | Some item \<Rightarrow> (Inr item, st))"

definition crear_item :: "registry \<Rightarrow> ItemCreate \<Rightarrow> datetime \<Rightarrow> (error + Item) \<times> registry" where
  "crear_item st item now =
     (case Item_new (next_id st) (nombre item) (descripcion item) (precio item)
             (disponible item) now of
        Inl e \<Rightarrow> (Inl e, st)
      | Inr nuevo_item \<Rightarrow>
          (Inr nuevo_item,
           st\<lparr>items_db := items_db st @ [nuevo_item], next_id := next_id st + 1\<rparr>))"

definition actualizar_item ::
  "registry \<Rightarrow> int \<Rightarrow> ItemCreate \<Rightarrow> (error + Item) \<times> registry" where
  "actualizar_item st item_id item_actualizado =
     (case first_index (\<lambda>item. id' item = item_id) (items_db st) of
        None \<Rightarrow> (Inl (NotFound item_id), st)
      | Some item_index \<Rightarrow>
          (case Item_new item_id (nombre item_actualizado) (descripcion item_actualizado)
                  (precio item_actualizado) (disponible item_actualizado)
                  (fecha_creacion (items_db st ! item_index)) of
             Inl e \<Rightarrow> (Inl e, st)
           | Inr item_modificado \<Rightarrow>
               (Inr item_modificado,
                st\<lparr>items_db := (items_db st)[item_index := item_modificado]\<rparr>)))"

text \<open>
  \<^verbatim>\<open>actualizar_disponibilidad\<close> assigns to the field of the object that the list holds:
  the list then holds the changed object at the same place. No object stands twice in
  the list (each one is built by the call that stores it), so no other place changes.
\<close>

definition actualizar_disponibilidad ::
  "registry \<Rightarrow> int \<Rightarrow> bool \<Rightarrow> (error + Item) \<times> registry" where
  "actualizar_disponibilidad st item_id d =
     (case first_index (\<lambda>item. id' item = item_id) (items_db st) of
        None \<Rightarrow> (Inl (NotFound item_id), st)
      | Some k \<Rightarrow>
          (let item = (items_db st ! k)\<lparr>disponible := d\<rparr>
           in (Inr item, st\<lparr>items_db := (items_db st)[k := item]\<rparr>)))"

definition eliminar_item :: "registry \<Rightarrow> int \<Rightarrow> (error + unit) \<times> registry" where
  "eliminar_item st item_id =
     (case first_index (\<lambda>item. id' item = item_id) (items_db st) of
        None \<Rightarrow> (Inl (NotFound item_id), st)
      | Some item_index \<Rightarrow>
          (Inr (),
           st\<lparr>items_db := take item_index (items_db st) @ drop (Suc item_index) (items_db st)\<rparr>))"

text \<open>
  The statistics. The three prices are floats, or the int 0 when the list is empty.
\<close>

record stats =
  total_items :: int
  items_disponibles :: int
  items_no_disponibles :: int
  precio_promedio :: number
  precio_minimo :: number
  precio_maximo :: number

definition obtener_estadisticas :: "registry \<Rightarrow> (error + stats) \<times> registry" where
  "obtener_estadisticas st =
     (let total = int (length (items_db st));
          disponibles = int (length (filter disponible (items_db st)));
          no_disponibles = total - disponibles;
          precios = map precio (items_db st);
          promedio = (if precios \<noteq> []
                      then map_sum id PyFloat (float_truediv_len (py_sum precios) (length precios))
                      else Inr (PyInt 0));
          minimo = (if precios \<noteq> [] then map_sum id PyFloat (py_min precios) else Inr (PyInt 0));
          maximo = (if precios \<noteq> [] then map_sum id PyFloat (py_max precios) else Inr (PyInt 0))
      in case promedio of
           Inl e \<Rightarrow> (Inl e, st)
         | Inr avg \<Rightarrow>
             (case minimo of
                Inl e \<Rightarrow> (Inl e, st)
              | Inr lo \<Rightarrow>
                  (case maximo of
                     Inl e \<Rightarrow> (Inl e, st)
                   | Inr hi \<Rightarrow>
                       (Inr \<lparr>total_items = total, items_disponibles = disponibles,
                             items_no_disponibles = no_disponibles,
                             precio_promedio = py_round2 avg,
                             precio_minimo = lo, precio_maximo = hi\<rparr>, st))))"

subsection \<open>Requests\<close>

text \<open>
  The routes of the application. A body declared as \<^verbatim>\<open>ItemCreate\<close> is validated before
  the endpoint is called: a body that breaks a \<^verbatim>\<open>Field\<close> constraint is rejected and the
  endpoint does not run. The answer to a rejected body is the validation error
  (HTTP 422), whose JSON text repeats every rejected value. JSON has no NaN and no
  infinity, and the answers of the application are rendered with \<^verbatim>\<open>allow_nan=False\<close>:
  when the rejected price is NaN or \<open>-Infinity\<close> (\<open>+Infinity\<close> is greater than 0 and is
  not rejected) rendering the answer raises ValueError, which \<^verbatim>\<open>exception_handler\<close>
  turns into the internal error (HTTP 500). The statistics are a plain dict rendered
  the same way, so statistics with a price that is not finite are answered with the
  internal error as well. \<open>run\<close> serves a sequence of requests; \<open>created_ids\<close> lists the
  ids of the items that the \<^verbatim>\<open>POST\<close> requests of the sequence returned.
\<close>

datatype request =
    GET_root
  | GET_health datetime
  | GET_items "bool option" "pyfloat option" "pyfloat option"
  | GET_item int
  | POST_items ItemCreate datetime
  | PUT_item int ItemCreate
  | PATCH_disponibilidad int bool
  | DELETE_item int
  | GET_stats

datatype response =
    Welcome
  | Healthy datetime
  | ItemList "Item list"
  | OneItem Item
  | NoContent
  | Statistics stats

fun is_finite :: "pyfloat \<Rightarrow> bool" where
  "is_finite (Finite a) = True"
| "is_finite x = False"

fun json_number :: "number \<Rightarrow> bool" where
  "json_number (PyInt n) = True"
| "json_number (PyFloat x) = is_finite x"

definition rejected_body :: "ItemCreate \<Rightarrow> error" where
  "rejected_body body =
     (if float_gt (precio body) (Finite 0) \<or> is_finite (precio body) then ValidationError
      else UnhandledError)"

definition render_stats :: "stats \<Rightarrow> error + response" where
  "render_stats s =
     (if json_number (precio_promedio s) \<and> json_number (precio_minimo s)
         \<and> json_number (precio_maximo s)
      then Inr (Statistics s) else Inl UnhandledError)"

fun handle :: "registry \<Rightarrow> request \<Rightarrow> (error + response) \<times> registry" where
  "handle st GET_root = (Inr Welcome, st)"
| "handle st (GET_health now) = (Inr (Healthy now), st)"
| "handle st (GET_items d lo hi) = apfst (\<lambda>xs. Inr (ItemList xs)) (obtener_items st d lo hi)"
| "handle st (GET_item i) = apfst (map_sum id OneItem) (obtener_item st i)"
| "handle st (POST_items body now) =
     (if ItemBase_valid body then apfst (map_sum id OneItem) (crear_item st body now)
      else (Inl (rejected_body body), st))"
| "handle st (PUT_item i body) =
     (if ItemBase_valid body then apfst (map_sum id OneItem) (actualizar_item st i body)
      else (Inl (rejected_body body), st))"
| "handle st (PATCH_disponibilidad i d) =
     apfst (map_sum id OneItem) (actualizar_disponibilidad st i d)"
| "handle st (DELETE_item i) = apfst (map_sum id (\<lambda>_. NoContent)) (eliminar_item st i)"
| "handle st GET_stats =
     apfst (\<lambda>res. case res of Inl e \<Rightarrow> Inl e | Inr s \<Rightarrow> render_stats s)
       (obtener_estadisticas st)"

fun run :: "registry \<Rightarrow> request list \<Rightarrow> registry" where
  "run st [] = st"
| "run st (r # rs) = run (snd (handle st r)) rs"

fun created_ids :: "registry \<Rightarrow> request list \<Rightarrow> int list" where
  "created_ids st [] = []"
| "created_ids st (r # rs) =
     (case (r, fst (handle st r)) of
        (POST_items body now, Inr (OneItem item)) \<Rightarrow> [id' item]
      | _ \<Rightarrow> [])
     @ created_ids (snd (handle st r)) rs"

section \<open>Read operations\<close>

text \<open>
  Claim C10. The read operations \<^verbatim>\<open>obtener_items\<close>, \<^verbatim>\<open>obtener_item\<close> and
  \<^verbatim>\<open>obtener_estadisticas\<close> leave the registry as it was: for every state and all
  arguments, the item sequence and the id counter after the call are those before it,
  for the endpoint itself and for the request that reaches it.
\<close>

theorem reads_leave_state:
  "snd (obtener_items st d lo hi) = st \<and> snd (obtener_item st i) = st
   \<and> snd (obtener_estadisticas st) = st
   \<and> snd (handle st (GET_items d lo hi)) = st \<and> snd (handle st (GET_item i)) = st
   \<and> snd (handle st GET_stats) = st"
  by (simp add: obtener_items_def obtener_item_def obtener_estadisticas_def Let_def
      split: option.splits sum.splits)

text \<open>
  Claim C4. For every state and every combination of the optional parameters,
  \<^verbatim>\<open>obtener_items\<close> returns exactly the items that satisfy all the predicates given
  (\<^verbatim>\<open>disponible\<close> equal to the flag, \<^verbatim>\<open>precio >= precio_min\<close>, \<^verbatim>\<open>precio <= precio_max\<close>),
  in the order of the registry; with no parameter it returns the whole sequence.
\<close>

theorem obtener_items_filters:
  "fst (obtener_items st d lo hi) =
     filter (\<lambda>item. (case d of None \<Rightarrow> True | Some b \<Rightarrow> disponible item = b)
                  \<and> (case lo of None \<Rightarrow> True | Some l \<Rightarrow> float_ge (precio item) l)
                  \<and> (case hi of None \<Rightarrow> True | Some h \<Rightarrow> float_le (precio item) h))
       (items_db st)
   \<and> subseq (fst (obtener_items st d lo hi)) (items_db st)
   \<and> fst (obtener_items st None None None) = items_db st"
  by (simp add: obtener_items_def Let_def conj_commute split: option.splits)

section \<open>Statistics\<close>

text \<open>
  Claim C9. On the empty registry \<^verbatim>\<open>obtener_estadisticas\<close> does not fail: it returns
  0 for the total, for the two counts, and for the average, minimum and maximum price.
\<close>

theorem stats_empty:
  "obtener_estadisticas \<lparr>items_db = [], next_id = n\<rparr> =
     (Inr \<lparr>total_items = 0, items_disponibles = 0, items_no_disponibles = 0,
           precio_promedio = PyInt 0, precio_minimo = PyInt 0, precio_maximo = PyInt 0\<rparr>,
      \<lparr>items_db = [], next_id = n\<rparr>)"
  by (simp add: obtener_estadisticas_def)

section \<open>Validation\<close>

text \<open>
  A body that breaks a constraint never reaches the endpoint: the request fails and the
  item sequence and the id counter are those before the call. The failure is the
  validation error whenever the rejected values can be written as JSON, that is unless
  the price is NaN or \<open>-Infinity\<close>.
\<close>

lemma invalid_body_state_kept:
  "\<not> ItemBase_valid body
   \<Longrightarrow> (\<exists>e. handle st (POST_items body now) = (Inl e, st))
       \<and> (\<exists>e. handle st (PUT_item i body) = (Inl e, st))"
  by simp

lemma invalid_body_validation_error:
  "nombre body = [] \<or> 100 < length (nombre body)
   \<or> (\<exists>d. descripcion body = Some d \<and> 500 < length d)
   \<or> \<not> float_gt (precio body) (Finite 0)
   \<Longrightarrow> float_gt (precio body) (Finite 0) \<or> is_finite (precio body)
   \<Longrightarrow> handle st (POST_items body now) = (Inl ValidationError, st)
       \<and> handle st (PUT_item i body) = (Inl ValidationError, st)"
  by (auto simp: ItemBase_valid_def rejected_body_def)

lemma invalid_body_examples:
  "handle (seed 0 0) (POST_items \<lparr>nombre = str_of ''Teclado'', descripcion = None,
       precio = Finite 0, disponible = True\<rparr> 7) = (Inl ValidationError, seed 0 0)
   \<and> handle (seed 0 0) (PUT_item 1 \<lparr>nombre = str_of ''Teclado'', descripcion = None,
       precio = Finite (- 5), disponible = True\<rparr>) = (Inl ValidationError, seed 0 0)
   \<and> handle (seed 0 0) (POST_items \<lparr>nombre = [], descripcion = None,
       precio = Finite 10, disponible = True\<rparr> 7) = (Inl ValidationError, seed 0 0)
   \<and> handle (seed 0 0) (POST_items \<lparr>nombre = replicate 101 97, descripcion = None,
       precio = Finite 10, disponible = True\<rparr> 7) = (Inl ValidationError, seed 0 0)
   \<and> handle (seed 0 0) (PUT_item 2 \<lparr>nombre = str_of ''Teclado'',
       descripcion = Some (replicate 501 97),
       precio = Finite 10, disponible = True\<rparr>) = (Inl ValidationError, seed 0 0)"
  by (simp add: ItemBase_valid_def rejected_body_def float_gt_def float_lt_def)

text \<open>
  Claim C5. When the body of a create or of an update breaks a constraint (the name is
  empty or longer than 100 characters, the description is longer than 500 characters,
  or the price is not greater than 0), the request is to be answered with the
  validation error, the item sequence and the id counter being those before the call.
  The service does not answer so when the price is NaN or \<open>-Infinity\<close>: the state is
  kept, but the answer is the internal error, on a create and on an update alike.
\<close>

theorem nonfinite_price_answer:
  "handle (seed 0 0) (POST_items \<lparr>nombre = str_of ''Teclado'', descripcion = None,
       precio = NaN, disponible = True\<rparr> 7) = (Inl UnhandledError, seed 0 0)
   \<and> handle (seed 0 0) (PUT_item 1 \<lparr>nombre = str_of ''Teclado'', descripcion = None,
       precio = NegInf, disponible = True\<rparr>) = (Inl UnhandledError, seed 0 0)"
  by (simp add: ItemBase_valid_def rejected_body_def float_gt_def float_lt_def)

section \<open>Searching the item sequence\<close>

text \<open>
  Facts about the two searches. In a sequence whose ids are distinct, the first item
  with an id is the only one, so replacing or removing it is replacing or removing every
  item with that id.
\<close>

lemma first_index_None: "(first_index P xs = None) = (\<forall>x\<in>set xs. \<not> P x)"
  by (induction xs) auto

lemma first_index_Some:
  "first_index P xs = Some k \<Longrightarrow> k < length xs \<and> P (xs ! k)"
  by (induction xs arbitrary: k) (auto split: if_splits)

lemma find_first_index: "find P xs = map_option ((!) xs) (first_index P xs)"
  by (induction xs) (auto simp: option.map_comp comp_def)

lemma first_index_update:
  "distinct (map f xs) \<Longrightarrow> first_index (\<lambda>x. f x = i) xs = Some k
   \<Longrightarrow> xs[k := g (xs ! k)] = map (\<lambda>x. if f x = i then g x else x) xs"
proof (induction xs arbitrary: k)
  case Nil
  then show ?case by simp
next
  case (Cons x xs)
  show ?case
  proof (cases "f x = i")
    case True
    with Cons.prems have "\<forall>y\<in>set xs. f y \<noteq> i" by (auto simp: image_iff)
    then have "map (\<lambda>x. if f x = i then g x else x) xs = xs"
      by (simp add: map_idI)
    with True Cons.prems show ?thesis by simp
  next
    case False
    with Cons.prems obtain j where "first_index (\<lambda>x. f x = i) xs = Some j" "k = Suc j"
      by auto
    with False Cons show ?thesis by simp
  qed
qed

lemma first_index_remove:
  "distinct (map f xs) \<Longrightarrow> first_index (\<lambda>x. f x = i) xs = Some k
   \<Longrightarrow> take k xs @ drop (Suc k) xs = filter (\<lambda>x. f x \<noteq> i) xs"
proof (induction xs arbitrary: k)
  case Nil
  then show ?case by simp
next
  case (Cons x xs)
  show ?case
  proof (cases "f x = i")
    case True
    with Cons.prems have "\<forall>y\<in>set xs. f y \<noteq> i" by (auto simp: image_iff)
    then have "filter (\<lambda>x. f x \<noteq> i) xs = xs" by simp
    with True Cons.prems show ?thesis by simp
  next
    case False
    with Cons.prems obtain j where "first_index (\<lambda>x. f x = i) xs = Some j" "k = Suc j"
      by auto
    with False Cons show ?thesis by simp
  qed
qed

lemma first_index_unique:
  "distinct (map f xs) \<Longrightarrow> first_index (\<lambda>x. f x = i) xs = Some k
   \<Longrightarrow> filter (\<lambda>x. f x = i) xs = [xs ! k]"
proof (induction xs arbitrary: k)
  case Nil
  then show ?case by simp
next
  case (Cons x xs)
  show ?case
  proof (cases "f x = i")
    case True
    with Cons.prems have "\<forall>y\<in>set xs. f y \<noteq> i" by (auto simp: image_iff)
    then have "filter (\<lambda>x. f x = i) xs = []" by simp
    with True Cons.prems show ?thesis by simp
  next
    case False
    with Cons.prems obtain j where "first_index (\<lambda>x. f x = i) xs = Some j" "k = Suc j"
      by auto
    with False Cons show ?thesis by simp
  qed
qed

lemma first_index_the_item:
  assumes "distinct (map f xs)" "first_index (\<lambda>x. f x = i) xs = Some k"
    "y \<in> set xs" "f y = i"
  shows "xs ! k = y"
proof -
  from assms(3,4) have "y \<in> set (filter (\<lambda>x. f x = i) xs)" by simp
  with first_index_unique [OF assms(1,2)] show ?thesis by simp
qed

lemma first_index_present:
  "y \<in> set xs \<Longrightarrow> P y \<Longrightarrow> \<exists>k. first_index P xs = Some k"
  using first_index_None [of P xs] by (cases "first_index P xs") auto

lemma find_replaced:
  "y \<in> set xs \<Longrightarrow> f y = i \<Longrightarrow> f r = i
   \<Longrightarrow> find (\<lambda>x. f x = i) (map (\<lambda>x. if f x = i then r else x) xs) = Some r"
  by (induction xs) auto

lemma seed_ids: "map id' (items_db (seed t1 t2)) = [1, 2]"
  by (simp add: seed_def)

section \<open>Reachable states\<close>

text \<open>
  What every request keeps: the counter never decreases, every id of the sequence is
  below the counter, and the ids of the sequence are distinct. The seeded state has the
  three properties, so every state reached from it by requests has them.
\<close>

lemma handle_created:
  "handle st (POST_items body now) = (Inr (OneItem item), st')
   \<Longrightarrow> id' item = next_id st \<and> next_id st' = next_id st + 1
       \<and> items_db st' = items_db st @ [item]"
  by (auto simp: crear_item_def Item_new_def Let_def split: if_splits)

lemma handle_next_id: "next_id st \<le> next_id (snd (handle st r))"
  by (cases r)
    (auto simp: obtener_items_def obtener_item_def crear_item_def actualizar_item_def
      actualizar_disponibilidad_def eliminar_item_def obtener_estadisticas_def
      Item_new_def Let_def split: option.splits sum.splits if_splits)

lemma handle_deleted:
  "handle st (DELETE_item i) = (Inr NoContent, st')
   \<Longrightarrow> i \<in> id' ` set (items_db st) \<and> next_id st' = next_id st"
  by (auto simp: eliminar_item_def split: option.splits dest!: first_index_Some)

lemma handle_ids_below:
  assumes "\<forall>x\<in>set (items_db st). id' x < next_id st"
  shows "\<forall>x\<in>set (items_db (snd (handle st r))). id' x < next_id (snd (handle st r))"
proof (cases r)
  case (POST_items body now)
  from assms have "\<forall>x\<in>set (items_db st). id' x < next_id st + 1"
    by auto
  with assms POST_items show ?thesis
    by (simp add: crear_item_def Item_new_def Let_def)
next
  case (PUT_item i body)
  show ?thesis
  proof (cases "first_index (\<lambda>x. id' x = i) (items_db st)")
    case None
    with assms PUT_item show ?thesis
      by (simp add: actualizar_item_def)
  next
    case (Some k)
    from first_index_Some [OF Some] assms have "i < next_id st"
      by (metis nth_mem)
    with assms PUT_item Some show ?thesis
      by (auto simp: actualizar_item_def Item_new_def Let_def dest!: set_update_subset_insert [THEN subsetD])
  qed
next
  case (PATCH_disponibilidad i d)
  show ?thesis
  proof (cases "first_index (\<lambda>x. id' x = i) (items_db st)")
    case None
    with assms PATCH_disponibilidad show ?thesis
      by (simp add: actualizar_disponibilidad_def)
  next
    case (Some k)
    from first_index_Some [OF Some] assms have "i < next_id st"
      by (metis nth_mem)
    with assms PATCH_disponibilidad Some first_index_Some [OF Some] show ?thesis
      by (auto simp: actualizar_disponibilidad_def Let_def dest!: set_update_subset_insert [THEN subsetD])
  qed
next
  case (DELETE_item i)
  with assms show ?thesis
    by (auto simp: eliminar_item_def split: option.splits dest: in_set_takeD in_set_dropD)
qed (use assms in \<open>simp_all add: obtener_items_def obtener_item_def obtener_estadisticas_def
      Let_def split: option.splits sum.splits\<close>)

lemma run_next_id: "next_id st \<le> next_id (run st rs)"
proof (induction rs arbitrary: st)
  case Nil
  show ?case by simp
next
  case (Cons r rs)
  from handle_next_id [of st r] Cons [of "snd (handle st r)"] show ?case by simp
qed

lemma run_ids_below:
  "\<forall>x\<in>set (items_db st). id' x < next_id st
   \<Longrightarrow> \<forall>x\<in>set (items_db (run st rs)). id' x < next_id (run st rs)"
proof (induction rs arbitrary: st)
  case Nil
  then show ?case by simp
next
  case (Cons r rs)
  from Cons.IH [OF handle_ids_below [OF Cons.prems, of r]] show ?case by simp
qed

lemma created_ids_below:
  "\<forall>j\<in>set (created_ids st rs). j < next_id (run st rs)"
proof (induction rs arbitrary: st)
  case Nil
  show ?case by simp
next
  case (Cons r rs)
  obtain res st' where h: "handle st r = (res, st')"
    by (cases "handle st r")
  have later: "\<forall>j\<in>set (created_ids st' rs). j < next_id (run st' rs)"
    by (rule Cons.IH)
  have first: "j < next_id (run st' rs)"
    if "j \<in> set (case (r, res) of (POST_items body now, Inr (OneItem item)) \<Rightarrow> [id' item]
                      | _ \<Rightarrow> [])" for j
  proof -
    from that obtain body now item where r: "r = POST_items body now"
      and res: "res = Inr (OneItem item)" and j: "j = id' item"
      by (auto split: request.splits sum.splits response.splits)
    from handle_created [of st body now item st'] h r res
    have "id' item = next_id st" "next_id st' = next_id st + 1" by simp_all
    with run_next_id [of st' rs] j show ?thesis by simp
  qed
  from first later h show ?case by auto
qed

lemma seed_ids_below: "\<forall>x\<in>set (items_db (seed t1 t2)). id' x < next_id (seed t1 t2)"
  by (simp add: seed_def)

lemma handle_distinct:
  assumes b: "\<forall>x\<in>set (items_db st). id' x < next_id st"
    and d: "distinct (map id' (items_db st))"
  shows "distinct (map id' (items_db (snd (handle st r))))"
proof (cases r)
  case (POST_items body now)
  from b have "next_id st \<notin> id' ` set (items_db st)" by auto
  with d POST_items show ?thesis
    by (simp add: crear_item_def Item_new_def Let_def)
next
  case (PUT_item i body)
  show ?thesis
  proof (cases "first_index (\<lambda>x. id' x = i) (items_db st)")
    case None
    with d PUT_item show ?thesis by (simp add: actualizar_item_def)
  next
    case (Some k)
    from first_index_Some [OF Some] have "(map id' (items_db st))[k := i] = map id' (items_db st)"
      by (simp add: list_update_same_conv)
    with d PUT_item Some show ?thesis
      by (simp add: actualizar_item_def Item_new_def Let_def map_update)
  qed
next
  case (PATCH_disponibilidad i v)
  show ?thesis
  proof (cases "first_index (\<lambda>x. id' x = i) (items_db st)")
    case None
    with d PATCH_disponibilidad show ?thesis by (simp add: actualizar_disponibilidad_def)
  next
    case (Some k)
    from first_index_Some [OF Some] have "(map id' (items_db st))[k := i] = map id' (items_db st)"
      by (simp add: list_update_same_conv)
    with d PATCH_disponibilidad Some first_index_Some [OF Some] show ?thesis
      by (simp add: actualizar_disponibilidad_def Let_def map_update)
  qed
next
  case (DELETE_item i)
  show ?thesis
  proof (cases "first_index (\<lambda>x. id' x = i) (items_db st)")
    case None
    with d DELETE_item show ?thesis by (simp add: eliminar_item_def)
  next
    case (Some k)
    have "distinct (map id' (filter (\<lambda>x. id' x \<noteq> i) (items_db st)))"
      using d by (rule distinct_map_filter)
    with DELETE_item Some first_index_remove [OF d Some] show ?thesis
      by (simp add: eliminar_item_def)
  qed
qed (use d in \<open>simp_all add: obtener_items_def obtener_item_def obtener_estadisticas_def
      Let_def split: option.splits sum.splits\<close>)

lemma reachable_distinct: "distinct (map id' (items_db (run (seed t1 t2) reqs)))"
proof -
  have "(\<forall>x\<in>set (items_db st). id' x < next_id st) \<Longrightarrow> distinct (map id' (items_db st))
      \<Longrightarrow> distinct (map id' (items_db (run st reqs)))" for st
  proof (induction reqs arbitrary: st)
    case Nil
    then show ?case by simp
  next
    case (Cons r rs)
    from Cons.IH [OF handle_ids_below [OF Cons.prems(1), of r] handle_distinct [OF Cons.prems, of r]]
    show ?case by simp
  qed
  from this [OF seed_ids_below] show ?thesis
    by (simp add: seed_def)
qed

text \<open>
  Claim C1. The seeded state holds the ids 1 and 2 and the counter 3. After any sequence
  of requests from the seeded state, an item returned by a create has an id greater than
  every id assigned before (the ids of the seed items and the ids returned by the creates
  of the sequence); and after a delete of id \<open>i\<close> has succeeded, no later create, whatever
  the requests in between, returns the id \<open>i\<close>.
\<close>

theorem ids_monotone:
  "map id' (items_db (seed t1 t2)) = [1, 2] \<and> next_id (seed t1 t2) = 3
   \<and> (handle (run (seed t1 t2) reqs) (POST_items body now) = (Inr (OneItem item), st') \<longrightarrow>
        (\<forall>j\<in>set (map id' (items_db (seed t1 t2)) @ created_ids (seed t1 t2) reqs).
            j < id' item))
   \<and> (handle (run (seed t1 t2) reqs1) (DELETE_item i) = (Inr NoContent, st2)
        \<and> handle (run st2 reqs2) (POST_items body2 now2) = (Inr (OneItem item2), st3) \<longrightarrow>
        id' item2 \<noteq> i \<and> i < id' item2)"
proof -
  have seeded: "map id' (items_db (seed t1 t2)) = [1, 2] \<and> next_id (seed t1 t2) = 3"
    by (simp add: seed_def)
  have create: "\<forall>j\<in>set (map id' (items_db (seed t1 t2)) @ created_ids (seed t1 t2) reqs).
      j < id' item"
    if h: "handle (run (seed t1 t2) reqs) (POST_items body now) = (Inr (OneItem item), st')"
  proof -
    from handle_created [OF h] have eq: "id' item = next_id (run (seed t1 t2) reqs)"
      by simp
    have "\<forall>j\<in>set (map id' (items_db (seed t1 t2))). j < next_id (run (seed t1 t2) reqs)"
      using seed_ids_below [of t1 t2] run_next_id [of "seed t1 t2" reqs] by fastforce
    with created_ids_below [of "seed t1 t2" reqs] eq show ?thesis
      by auto
  qed
  have delete: "id' item2 \<noteq> i \<and> i < id' item2"
    if d: "handle (run (seed t1 t2) reqs1) (DELETE_item i) = (Inr NoContent, st2)"
      and c: "handle (run st2 reqs2) (POST_items body2 now2) = (Inr (OneItem item2), st3)"
  proof -
    from handle_deleted [OF d]
    have "i \<in> id' ` set (items_db (run (seed t1 t2) reqs1))"
      and n: "next_id st2 = next_id (run (seed t1 t2) reqs1)"
      by simp_all
    with run_ids_below [OF seed_ids_below, of t1 t2 reqs1]
    have "i < next_id st2" by auto
    also have "\<dots> \<le> next_id (run st2 reqs2)" by (rule run_next_id)
    also from handle_created [OF c] have "\<dots> = id' item2" by simp
    finally show ?thesis by simp
  qed
  from seeded create delete show ?thesis by blast
qed

text \<open>
  From the seeded state: a create (id 3), the delete of id 3 and a rejected create are
  followed by a create that gets the id 4, not the freed id 3.
\<close>

theorem ids_monotone_witness:
  "(\<exists>item st'. handle (run (seed 0 0)
        [POST_items \<lparr>nombre = str_of ''Teclado'', descripcion = None,
                     precio = Finite 30, disponible = True\<rparr> 7,
         DELETE_item 3,
         POST_items \<lparr>nombre = [], descripcion = None,
                     precio = Finite 30, disponible = True\<rparr> 8])
      (POST_items \<lparr>nombre = str_of ''Monitor'', descripcion = None,
                   precio = Finite 200, disponible = True\<rparr> 9) = (Inr (OneItem item), st')
      \<and> id' item = 4 \<and> 1 < id' item \<and> 2 < id' item \<and> 3 < id' item)
   \<and> (\<exists>st2 item2 st3. handle (run (seed 0 0)
        [POST_items \<lparr>nombre = str_of ''Teclado'', descripcion = None,
                     precio = Finite 30, disponible = True\<rparr> 7]) (DELETE_item 3)
          = (Inr NoContent, st2)
      \<and> handle (run st2 [GET_item 1])
          (POST_items \<lparr>nombre = str_of ''Monitor'', descripcion = None,
                       precio = Finite 200, disponible = True\<rparr> 9) = (Inr (OneItem item2), st3)
      \<and> 3 < id' item2)"
proof -
  let ?b1 = "\<lparr>nombre = str_of ''Teclado'', descripcion = None,
                     precio = Finite 30, disponible = True\<rparr>"
  let ?b0 = "\<lparr>nombre = [], descripcion = None,
                     precio = Finite 30, disponible = True\<rparr>"
  let ?b2 = "\<lparr>nombre = str_of ''Monitor'', descripcion = None,
                   precio = Finite 200, disponible = True\<rparr>"
  let ?reqs = "[POST_items ?b1 7, DELETE_item 3, POST_items ?b0 8]"
  have v: "ItemBase_valid ?b1" "\<not> ItemBase_valid ?b0" "ItemBase_valid ?b2"
    by (simp_all add: ItemBase_valid_def str_of_def float_gt_def float_lt_def)
  have s1: "run (seed 0 0) [POST_items ?b1 7]
      = \<lparr>items_db = items_db (seed 0 0) @ [\<lparr>nombre = str_of ''Teclado'', descripcion = None,
            precio = Finite 30, disponible = True, id' = 3, fecha_creacion = 7\<rparr>],
         next_id = 4\<rparr>"
    using v by (simp add: crear_item_def Item_new_def Let_def ItemBase_valid_def seed_def)
  have d1: "handle (run (seed 0 0) [POST_items ?b1 7]) (DELETE_item 3)
      = (Inr NoContent, \<lparr>items_db = items_db (seed 0 0), next_id = 4\<rparr>)"
    unfolding s1 by (simp add: eliminar_item_def seed_def)
  have s3: "run (seed 0 0) ?reqs = \<lparr>items_db = items_db (seed 0 0), next_id = 4\<rparr>"
    using s1 d1 v by simp
  have c: "handle \<lparr>items_db = items_db (seed 0 0), next_id = 4\<rparr> (POST_items ?b2 9)
      = (Inr (OneItem \<lparr>nombre = str_of ''Monitor'', descripcion = None,
            precio = Finite 200, disponible = True, id' = 4, fecha_creacion = 9\<rparr>),
         \<lparr>items_db = items_db (seed 0 0) @ [\<lparr>nombre = str_of ''Monitor'', descripcion = None,
            precio = Finite 200, disponible = True, id' = 4, fecha_creacion = 9\<rparr>],
          next_id = 5\<rparr>)"
    using v by (simp add: crear_item_def Item_new_def Let_def ItemBase_valid_def)
  have ids: "created_ids (seed 0 0) ?reqs = [3]"
    using s1 d1 v by (simp add: crear_item_def Item_new_def Let_def ItemBase_valid_def seed_def)
  have g: "run \<lparr>items_db = items_db (seed 0 0), next_id = 4\<rparr> [GET_item 1]
      = \<lparr>items_db = items_db (seed 0 0), next_id = 4\<rparr>"
    by (simp add: obtener_item_def split: option.splits)
  let ?it = "\<lparr>nombre = str_of ''Monitor'', descripcion = None,
            precio = Finite 200, disponible = True, id' = 4, fecha_creacion = 9\<rparr>"
  let ?st4 = "\<lparr>items_db = items_db (seed 0 0), next_id = 4\<rparr>"
  let ?st5 = "\<lparr>items_db = items_db (seed 0 0) @ [?it], next_id = 5\<rparr>"
  note m = ids_monotone [of 0 0 ?reqs ?b2 9 ?it ?st5 "[POST_items ?b1 7]" 3 ?st4
      "[GET_item 1]" ?b2 9 ?it ?st5]
  from m have "\<forall>j\<in>set (map id' (items_db (seed 0 0)) @ created_ids (seed 0 0) ?reqs).
      j < id' ?it"
    unfolding s3 using c by blast
  then have first: "1 < id' ?it" "2 < id' ?it" "3 < id' ?it"
    unfolding ids by (simp_all add: seed_def)
  from m have second: "3 < id' ?it"
    unfolding g using d1 c by blast
  have part1: "\<exists>item st'. handle (run (seed 0 0) ?reqs) (POST_items ?b2 9)
        = (Inr (OneItem item), st')
      \<and> id' item = 4 \<and> 1 < id' item \<and> 2 < id' item \<and> 3 < id' item"
  proof (intro exI conjI)
    show "handle (run (seed 0 0) ?reqs) (POST_items ?b2 9) = (Inr (OneItem ?it), ?st5)"
      unfolding s3 by (rule c)
    show "id' ?it = 4" by simp
    show "1 < id' ?it" "2 < id' ?it" "3 < id' ?it" by (rule first)+
  qed
  have part2: "\<exists>st2 item2 st3. handle (run (seed 0 0) [POST_items ?b1 7]) (DELETE_item 3)
          = (Inr NoContent, st2)
      \<and> handle (run st2 [GET_item 1]) (POST_items ?b2 9) = (Inr (OneItem item2), st3)
      \<and> 3 < id' item2"
  proof (intro exI conjI)
    show "handle (run (seed 0 0) [POST_items ?b1 7]) (DELETE_item 3) = (Inr NoContent, ?st4)"
      by (rule d1)
    show "handle (run ?st4 [GET_item 1]) (POST_items ?b2 9) = (Inr (OneItem ?it), ?st5)"
      unfolding g by (rule c)
    show "3 < id' ?it" by (rule second)
  qed
  from part1 part2 show ?thesis ..
qed

section \<open>Single items\<close>

text \<open>
  Claim C6. For every state and every id, \<^verbatim>\<open>obtener_item\<close> fails exactly when no item of
  the sequence has that id, and the failure is \<open>NotFound\<close>; otherwise it returns an item
  of the sequence with that id, which is the only such item when the ids of the sequence
  are distinct.
\<close>

theorem obtener_item_spec:
  "((\<exists>e. fst (obtener_item st i) = Inl e) = (i \<notin> id' ` set (items_db st)))
   \<and> (i \<notin> id' ` set (items_db st) \<longrightarrow> obtener_item st i = (Inl (NotFound i), st))
   \<and> (i \<in> id' ` set (items_db st) \<longrightarrow>
        (\<exists>item. obtener_item st i = (Inr item, st) \<and> item \<in> set (items_db st) \<and> id' item = i
           \<and> (distinct (map id' (items_db st)) \<longrightarrow>
                filter (\<lambda>x. id' x = i) (items_db st) = [item])))"
proof (cases "first_index (\<lambda>x. id' x = i) (items_db st)")
  case None
  then have "i \<notin> id' ` set (items_db st)"
    by (auto simp: first_index_None)
  with None show ?thesis
    by (simp add: obtener_item_def find_first_index)
next
  case (Some k)
  from first_index_Some [OF Some] have k: "k < length (items_db st)" "id' (items_db st ! k) = i"
    by simp_all
  then have "i \<in> id' ` set (items_db st)"
    by (metis imageI nth_mem)
  moreover have "distinct (map id' (items_db st)) \<longrightarrow>
      filter (\<lambda>x. id' x = i) (items_db st) = [items_db st ! k]"
    using first_index_unique [of id' "items_db st" i k] Some by simp
  ultimately show ?thesis
    using Some k by (simp add: obtener_item_def find_first_index)
qed

text \<open>On the seeded state: id 9999 is not found, id 2 is found and is the only item with id 2.\<close>

theorem obtener_item_spec_witness:
  "obtener_item (seed 0 0) 9999 = (Inl (NotFound 9999), seed 0 0)
   \<and> (\<exists>item. obtener_item (seed 0 0) 2 = (Inr item, seed 0 0) \<and> id' item = 2
         \<and> filter (\<lambda>x. id' x = 2) (items_db (seed 0 0)) = [item])"
  using obtener_item_spec [of "seed 0 0" 9999] obtener_item_spec [of "seed 0 0" 2]
  by (simp add: seed_def)

text \<open>
  Claim C7. For every state and every id, \<^verbatim>\<open>eliminar_item\<close> fails exactly when no item has
  that id, with \<open>NotFound\<close> and the state unchanged. When an item has the id (the ids of
  the sequence being distinct) it succeeds: the sequence after the call is the one before
  without the item of that id, one item shorter, the counter is unchanged, and
  \<^verbatim>\<open>obtener_item\<close> on that id then fails with \<open>NotFound\<close>.
\<close>

theorem eliminar_item_spec:
  "((\<exists>e. fst (eliminar_item st i) = Inl e) = (i \<notin> id' ` set (items_db st)))
   \<and> (i \<notin> id' ` set (items_db st) \<longrightarrow> eliminar_item st i = (Inl (NotFound i), st))
   \<and> (i \<in> id' ` set (items_db st) \<and> distinct (map id' (items_db st)) \<longrightarrow>
        (\<exists>st'. eliminar_item st i = (Inr (), st')
           \<and> items_db st' = filter (\<lambda>x. id' x \<noteq> i) (items_db st)
           \<and> length (items_db st') + 1 = length (items_db st)
           \<and> next_id st' = next_id st
           \<and> obtener_item st' i = (Inl (NotFound i), st')))"
proof (cases "first_index (\<lambda>x. id' x = i) (items_db st)")
  case None
  then have "i \<notin> id' ` set (items_db st)"
    by (auto simp: first_index_None)
  with None show ?thesis
    by (simp add: eliminar_item_def)
next
  case (Some k)
  from first_index_Some [OF Some] have k: "k < length (items_db st)" "id' (items_db st ! k) = i"
    by simp_all
  then have present: "i \<in> id' ` set (items_db st)"
    by (metis imageI nth_mem)
  define st' where "st' = st\<lparr>items_db := take k (items_db st) @ drop (Suc k) (items_db st)\<rparr>"
  have del: "eliminar_item st i = (Inr (), st')"
    using Some by (simp add: eliminar_item_def st'_def)
  have len: "length (items_db st') + 1 = length (items_db st)"
    using k by (simp add: st'_def)
  have nid: "next_id st' = next_id st"
    by (simp add: st'_def)
  have rest: "distinct (map id' (items_db st)) \<longrightarrow>
      items_db st' = filter (\<lambda>x. id' x \<noteq> i) (items_db st)
      \<and> obtener_item st' i = (Inl (NotFound i), st')"
  proof
    assume d: "distinct (map id' (items_db st))"
    have f: "items_db st' = filter (\<lambda>x. id' x \<noteq> i) (items_db st)"
      using first_index_remove [OF d Some] by (simp add: st'_def)
    then have "find (\<lambda>x. id' x = i) (items_db st') = None"
      by (simp add: find_None_iff)
    with f show "items_db st' = filter (\<lambda>x. id' x \<noteq> i) (items_db st)
      \<and> obtener_item st' i = (Inl (NotFound i), st')"
      by (simp add: obtener_item_def)
  qed
  show ?thesis
    using present del len nid rest by auto
qed

text \<open>On the seeded state: deleting id 9999 fails; deleting id 1 leaves the item with id 2.\<close>

theorem eliminar_item_spec_witness:
  "eliminar_item (seed 0 0) 9999 = (Inl (NotFound 9999), seed 0 0)
   \<and> (\<exists>st'. eliminar_item (seed 0 0) 1 = (Inr (), st')
         \<and> map id' (items_db st') = [2] \<and> next_id st' = 3
         \<and> obtener_item st' 1 = (Inl (NotFound 1), st'))"
  using eliminar_item_spec [of "seed 0 0" 9999] eliminar_item_spec [of "seed 0 0" 1]
  by (auto simp: seed_def)

text \<open>
  Claim C8. For every stored item with id \<open>i\<close> and every boolean \<open>b\<close> (the ids of the
  sequence being distinct), \<^verbatim>\<open>actualizar_disponibilidad\<close> returns the item with only
  \<^verbatim>\<open>disponible\<close> set to \<open>b\<close>: its id, name, description, price and creation time are those
  before the call, every other item of the sequence and the counter are unchanged, and
  \<^verbatim>\<open>obtener_item\<close> then returns the changed item. When no item has id \<open>i\<close> it fails with
  \<open>NotFound\<close> and leaves the state unchanged.
\<close>

theorem actualizar_disponibilidad_spec:
  "(i \<notin> id' ` set (items_db st) \<longrightarrow>
      actualizar_disponibilidad st i b = (Inl (NotFound i), st))
   \<and> (item \<in> set (items_db st) \<and> id' item = i \<and> distinct (map id' (items_db st)) \<longrightarrow>
        (\<exists>r st'. actualizar_disponibilidad st i b = (Inr r, st')
           \<and> r = item\<lparr>disponible := b\<rparr>
           \<and> disponible r = b \<and> id' r = id' item \<and> nombre r = nombre item
           \<and> descripcion r = descripcion item \<and> precio r = precio item
           \<and> fecha_creacion r = fecha_creacion item
           \<and> items_db st' = map (\<lambda>x. if id' x = i then r else x) (items_db st)
           \<and> next_id st' = next_id st
           \<and> obtener_item st' i = (Inr r, st')))"
proof (cases "first_index (\<lambda>x. id' x = i) (items_db st)")
  case None
  then have "\<forall>x\<in>set (items_db st). id' x \<noteq> i"
    by (simp add: first_index_None)
  with None show ?thesis
    by (auto simp: actualizar_disponibilidad_def)
next
  case (Some k)
  from first_index_Some [OF Some] have k: "k < length (items_db st)" "id' (items_db st ! k) = i"
    by simp_all
  then have present: "i \<in> id' ` set (items_db st)"
    by (metis imageI nth_mem)
  have "\<exists>r st'. actualizar_disponibilidad st i b = (Inr r, st')
           \<and> r = item\<lparr>disponible := b\<rparr>
           \<and> items_db st' = map (\<lambda>x. if id' x = i then r else x) (items_db st)
           \<and> next_id st' = next_id st
           \<and> obtener_item st' i = (Inr r, st')"
    if item: "item \<in> set (items_db st)" "id' item = i"
      and d: "distinct (map id' (items_db st))"
  proof -
    have at: "items_db st ! k = item"
      using first_index_the_item [OF d Some item] .
    define r where "r = item\<lparr>disponible := b\<rparr>"
    define st' where "st' = st\<lparr>items_db := (items_db st)[k := r]\<rparr>"
    have upd: "items_db st' = map (\<lambda>x. if id' x = i then r else x) (items_db st)"
      using first_index_update [OF d Some, of "\<lambda>_. r"] by (simp add: st'_def)
    have call: "actualizar_disponibilidad st i b = (Inr r, st')"
      using Some at by (simp add: actualizar_disponibilidad_def Let_def r_def st'_def)
    have "id' r = i"
      using item by (simp add: r_def)
    then have "find (\<lambda>x. id' x = i) (items_db st') = Some r"
      using find_replaced [of item "items_db st" id' i r] item upd by simp
    then have get: "obtener_item st' i = (Inr r, st')"
      by (simp add: obtener_item_def)
    have "next_id st' = next_id st"
      by (simp add: st'_def)
    with call upd get show ?thesis
      unfolding r_def by blast
  qed
  then show ?thesis
    using present by auto
qed

text \<open>On the seeded state: id 9999 is not found; id 2 is made unavailable, id 1 is untouched.\<close>

theorem actualizar_disponibilidad_spec_witness:
  "actualizar_disponibilidad (seed 0 0) 9999 False = (Inl (NotFound 9999), seed 0 0)
   \<and> (\<exists>r st'. actualizar_disponibilidad (seed 0 0) 2 False = (Inr r, st')
         \<and> r = (items_db (seed 0 0) ! 1)\<lparr>disponible := False\<rparr>
         \<and> items_db st' = [items_db (seed 0 0) ! 0, r] \<and> next_id st' = 3)"
  using actualizar_disponibilidad_spec [of 9999 "seed 0 0" False "items_db (seed 0 0) ! 1"]
    actualizar_disponibilidad_spec [of 2 "seed 0 0" False "items_db (seed 0 0) ! 1"]
  by (auto simp: seed_def)

text \<open>
  Claim C2. For every stored item with id \<open>i\<close> (the ids of the sequence being distinct)
  and every valid body, the update succeeds and returns an item whose id and creation
  time are those of the stored item and whose name, description, price and availability
  are those of the body; the sequence holds it in the place of the stored item, every
  other item and the counter are unchanged.
\<close>

theorem actualizar_item_spec:
  "item \<in> set (items_db st) \<and> id' item = i \<and> distinct (map id' (items_db st))
   \<and> ItemBase_valid body \<longrightarrow>
     (\<exists>r st'. handle st (PUT_item i body) = (Inr (OneItem r), st')
        \<and> actualizar_item st i body = (Inr r, st')
        \<and> id' r = id' item \<and> fecha_creacion r = fecha_creacion item
        \<and> nombre r = nombre body \<and> descripcion r = descripcion body
        \<and> precio r = precio body \<and> disponible r = disponible body
        \<and> items_db st' = map (\<lambda>x. if id' x = i then r else x) (items_db st)
        \<and> next_id st' = next_id st
        \<and> obtener_item st' i = (Inr r, st'))"
proof
  assume a: "item \<in> set (items_db st) \<and> id' item = i \<and> distinct (map id' (items_db st))
   \<and> ItemBase_valid body"
  then have item: "item \<in> set (items_db st)" "id' item = i"
    and d: "distinct (map id' (items_db st))" and v: "ItemBase_valid body"
    by simp_all
  from first_index_present [of item "items_db st" "\<lambda>x. id' x = i"] item
  obtain k where Some: "first_index (\<lambda>x. id' x = i) (items_db st) = Some k"
    by auto
  have at: "items_db st ! k = item"
    using first_index_the_item [OF d Some item] .
  define r where "r = \<lparr>nombre = nombre body, descripcion = descripcion body,
    precio = precio body, disponible = disponible body,
    id' = i, fecha_creacion = fecha_creacion item\<rparr>"
  define st' where "st' = st\<lparr>items_db := (items_db st)[k := r]\<rparr>"
  have "ItemBase_valid r"
    using v by (simp add: ItemBase_valid_def r_def)
  then have new: "Item_new i (nombre body) (descripcion body) (precio body) (disponible body)
      (fecha_creacion item) = Inr r"
    by (simp add: Item_new_def Let_def r_def)
  have call: "actualizar_item st i body = (Inr r, st')"
    using Some at new by (simp add: actualizar_item_def st'_def)
  then have req: "handle st (PUT_item i body) = (Inr (OneItem r), st')"
    using v by simp
  have upd: "items_db st' = map (\<lambda>x. if id' x = i then r else x) (items_db st)"
    using first_index_update [OF d Some, of "\<lambda>_. r"] by (simp add: st'_def)
  have "id' r = i"
    by (simp add: r_def)
  then have "find (\<lambda>x. id' x = i) (items_db st') = Some r"
    using find_replaced [of item "items_db st" id' i r] item upd by simp
  then have get: "obtener_item st' i = (Inr r, st')"
    by (simp add: obtener_item_def)
  have fields: "id' r = id' item \<and> fecha_creacion r = fecha_creacion item
        \<and> nombre r = nombre body \<and> descripcion r = descripcion body
        \<and> precio r = precio body \<and> disponible r = disponible body"
    using item by (simp add: r_def)
  have "next_id st' = next_id st"
    by (simp add: st'_def)
  with req call fields upd get show "\<exists>r st'. handle st (PUT_item i body) = (Inr (OneItem r), st')
        \<and> actualizar_item st i body = (Inr r, st')
        \<and> id' r = id' item \<and> fecha_creacion r = fecha_creacion item
        \<and> nombre r = nombre body \<and> descripcion r = descripcion body
        \<and> precio r = precio body \<and> disponible r = disponible body
        \<and> items_db st' = map (\<lambda>x. if id' x = i then r else x) (items_db st)
        \<and> next_id st' = next_id st
        \<and> obtener_item st' i = (Inr r, st')"
    by blast
qed

text \<open>On the seeded state: the item with id 2 is overwritten and keeps its id and creation time.\<close>

theorem actualizar_item_spec_witness:
  "\<exists>r st'. handle (seed 5 6) (PUT_item 2 \<lparr>nombre = str_of ''Teclado'', descripcion = None,
                precio = Finite 30, disponible = False\<rparr>) = (Inr (OneItem r), st')
     \<and> r = \<lparr>nombre = str_of ''Teclado'', descripcion = None, precio = Finite 30,
            disponible = False, id' = 2, fecha_creacion = 6\<rparr>
     \<and> items_db st' = [items_db (seed 5 6) ! 0, r] \<and> next_id st' = 3"
proof -
  let ?body = "\<lparr>nombre = str_of ''Teclado'', descripcion = None,
                precio = Finite 30, disponible = False\<rparr>"
  have v: "ItemBase_valid ?body"
    by (simp add: ItemBase_valid_def str_of_def float_gt_def float_lt_def)
  have "items_db (seed 5 6) ! 1 \<in> set (items_db (seed 5 6)) \<and> id' (items_db (seed 5 6) ! 1) = 2
    \<and> distinct (map id' (items_db (seed 5 6))) \<and> ItemBase_valid ?body"
    using v by (simp add: seed_def)
  with actualizar_item_spec [of "items_db (seed 5 6) ! 1" "seed 5 6" 2 ?body]
  obtain r st' where h: "handle (seed 5 6) (PUT_item 2 ?body) = (Inr (OneItem r), st')"
    "id' r = id' (items_db (seed 5 6) ! 1)"
    "fecha_creacion r = fecha_creacion (items_db (seed 5 6) ! 1)"
    "nombre r = nombre ?body" "descripcion r = descripcion ?body"
    "precio r = precio ?body" "disponible r = disponible ?body"
    "items_db st' = map (\<lambda>x. if id' x = 2 then r else x) (items_db (seed 5 6))"
    "next_id st' = next_id (seed 5 6)"
    by blast
  have "r = \<lparr>nombre = str_of ''Teclado'', descripcion = None, precio = Finite 30,
            disponible = False, id' = 2, fecha_creacion = 6\<rparr>"
    using h(2-7) by (simp add: seed_def)
  moreover have "items_db st' = [items_db (seed 5 6) ! 0, r]" "next_id st' = 3"
    using h(8,9) by (simp_all add: seed_def)
  ultimately show ?thesis
    using h(1) by blast
qed

section \<open>Statistics of the seeded state\<close>

text \<open>
  Evaluating the rounding to binary64: the binade of a value is found from the two
  powers of two around it, and the nearest integer from a bound on the distance.
\<close>

lemma pow2_mono: "a \<le> b \<Longrightarrow> pow2 a \<le> pow2 b"
proof -
  have "pow2 e = 2 powi e" for e
    by (simp add: pow2_def power_int_def power_one_over)
  then show "a \<le> b \<Longrightarrow> pow2 a \<le> pow2 b"
    by (simp add: power_int_increasing)
qed

lemma binade_from_eq:
  "pow2 e \<le> x \<or> e = e0 \<Longrightarrow> x < pow2 (e + 1) \<Longrightarrow> e0 \<le> e \<Longrightarrow> nat (e - e0) \<le> k
   \<Longrightarrow> binade_from k e0 x = e"
proof (induction k arbitrary: e0)
  case 0
  then show ?case by simp
next
  case (Suc k)
  show ?case
  proof (cases "e0 = e")
    case True
    with Suc.prems show ?thesis by simp
  next
    case False
    with Suc.prems have lt: "e0 + 1 \<le> e" and le: "pow2 e \<le> x" by auto
    from pow2_mono [OF lt] le have "pow2 (e0 + 1) \<le> x" by simp
    moreover have "binade_from k (e0 + 1) x = e"
      using Suc.prems lt le by (intro Suc.IH) auto
    ultimately show ?thesis by simp
  qed
qed

lemma binade_eq:
  "pow2 e \<le> \<bar>x\<bar> \<Longrightarrow> \<bar>x\<bar> < pow2 (e + 1) \<Longrightarrow> - 1022 \<le> e \<Longrightarrow> e \<le> 1023 \<Longrightarrow> binade x = e"
  unfolding binade_def by (rule binade_from_eq) auto

lemma round_half_even_near: "\<bar>x - of_int n\<bar> < 1 / 2 \<Longrightarrow> round_half_even x = n"
proof -
  assume a: "\<bar>x - of_int n\<bar> < 1 / 2"
  define m where "m = \<lfloor>x\<rfloor>"
  have m: "of_int m \<le> x" "x < of_int m + 1"
    unfolding m_def by linarith+
  consider "x - of_int m < 1 / 2" | "1 / 2 < x - of_int m" | "x - of_int m = 1 / 2"
    by linarith
  then show ?thesis
  proof cases
    case 1
    with a m have "\<bar>(of_int m :: rat) - of_int n\<bar> < 1" by linarith
    then have "\<bar>m - n\<bar> < 1" by (metis of_int_abs of_int_diff of_int_less_1_iff)
    then have "m = n" by simp
    with 1 show ?thesis by (simp add: round_half_even_def Let_def m_def)
  next
    case 2
    with a m have "\<bar>(of_int (m + 1) :: rat) - of_int n\<bar> < 1" by (simp; linarith)
    then have "\<bar>(m + 1) - n\<bar> < 1" by (metis of_int_abs of_int_diff of_int_less_1_iff)
    then have "m + 1 = n" by simp
    with 2 show ?thesis by (auto simp add: round_half_even_def Let_def m_def)
  next
    case 3
    with a have "(of_int m :: rat) < of_int n" "(of_int n :: rat) < of_int (m + 1)"
      by (simp_all; linarith)+
    then have "m < n" "n < m + 1"
      by (simp_all only: of_int_less_iff)
    then show ?thesis by simp
  qed
qed

lemma float_of_rat_eq:
  assumes "pow2 e \<le> \<bar>x\<bar>" "\<bar>x\<bar> < pow2 (e + 1)" "- 1022 \<le> e" "e \<le> 1023"
    and "\<bar>x / pow2 (e - 52) - of_int n\<bar> < 1 / 2"
    and "y = of_int n * pow2 (e - 52)" "\<bar>y\<bar> < pow2 1024"
  shows "float_of_rat x = Finite y"
proof -
  have "binade x = e"
    using assms(1-4) by (rule binade_eq)
  moreover have "round_half_even (x / pow2 (e - 52)) = n"
    using assms(5) by (rule round_half_even_near)
  ultimately show ?thesis
    using assms(6,7) by (auto simp: float_of_rat_def Let_def)
qed

lemma float_laptop: "float_of_rat (2401 / 2) = Finite (2401 / 2)"
  by (rule float_of_rat_eq [where e = 10 and n = 5279854836580352]) (simp_all add: pow2_def)

lemma float_mouse: "float_of_rat (4599 / 100) = Finite (6472517089461535 / 140737488355328)"
  by (rule float_of_rat_eq [where e = 5 and n = 6472517089461535]) (simp_all add: pow2_def)

lemma float_sum:
  "float_of_rat (2401 / 2 + 6472517089461535 / 140737488355328)
   = Finite (5482120995626025 / 4398046511104)"
  by (rule float_of_rat_eq [where e = 10 and n = 5482120995626025]) (simp_all add: pow2_def)

lemma float_two: "float_of_rat 2 = Finite 2"
  by (rule float_of_rat_eq [where e = 1 and n = 4503599627370496]) (simp_all add: pow2_def)

lemma float_mean:
  "float_of_rat (5482120995626025 / 4398046511104 / 2)
   = Finite (5482120995626025 / 8796093022208)"
  by (rule float_of_rat_eq [where e = 9 and n = 5482120995626025]) (simp_all add: pow2_def)

lemma round_mean: "round_half_even (137053024890650625 / 2199023255552) = 62325"
  by (rule round_half_even_near) simp

lemma float_rounded: "float_of_rat (2493 / 4) = Finite (2493 / 4)"
  by (rule float_of_rat_eq [where e = 9 and n = 5482164976091136]) (simp_all add: pow2_def)

lemma seed_sum:
  "py_sum [Finite (2401 / 2), Finite (6472517089461535 / 140737488355328)]
   = Finite (5482120995626025 / 4398046511104)"
  using float_laptop float_sum by (simp add: py_sum_def)

lemma seed_mean:
  "float_truediv_len (Finite (5482120995626025 / 4398046511104)) (Suc (Suc 0))
   = Inr (Finite (5482120995626025 / 8796093022208))"
  using float_two float_mean by simp

text \<open>
  Claim C3. On the seeded state, with prices 1200.50 and 45.99 and both items available,
  \<^verbatim>\<open>obtener_estadisticas\<close> returns 2 items, 2 available, 0 unavailable, the average
  price 623.25, the minimum 45.99 and the maximum 1200.50, each price being the float
  that the decimal denotes. The mean of the two floats lies above 623.245, so rounding
  it to two places gives 623.25, which is a float exactly.
\<close>

theorem stats_seeded:
  "obtener_estadisticas (seed t1 t2) =
     (Inr \<lparr>total_items = 2, items_disponibles = 2, items_no_disponibles = 0,
           precio_promedio = PyFloat (float_of_rat (62325 / 100)),
           precio_minimo = PyFloat (float_of_rat (4599 / 100)),
           precio_maximo = PyFloat (float_of_rat (12005 / 10))\<rparr>,
      seed t1 t2)
   \<and> float_of_rat (62325 / 100) = Finite (62325 / 100)"
proof -
  have prices: "map precio (items_db (seed t1 t2))
      = [Finite (2401 / 2), Finite (6472517089461535 / 140737488355328)]"
    by (simp add: seed_def float_laptop float_mouse)
  have len: "length [Finite (2401 / 2), Finite (6472517089461535 / 140737488355328)]
      = Suc (Suc 0)"
    by simp
  have counts: "length (items_db (seed t1 t2)) = 2"
    "length (filter disponible (items_db (seed t1 t2))) = 2"
    by (simp_all add: seed_def)
  have lo: "py_min [Finite (2401 / 2), Finite (6472517089461535 / 140737488355328)]
      = Inr (float_of_rat (4599 / 100))"
    by (simp add: float_mouse float_lt_def)
  have hi: "py_max [Finite (2401 / 2), Finite (6472517089461535 / 140737488355328)]
      = Inr (float_of_rat (12005 / 10))"
    by (simp add: float_laptop float_gt_def float_lt_def)
  have "obtener_estadisticas (seed t1 t2) =
     (Inr \<lparr>total_items = 2, items_disponibles = 2, items_no_disponibles = 0,
           precio_promedio = PyFloat (float_of_rat (62325 / 100)),
           precio_minimo = PyFloat (float_of_rat (4599 / 100)),
           precio_maximo = PyFloat (float_of_rat (12005 / 10))\<rparr>,
      seed t1 t2)"
    unfolding obtener_estadisticas_def Let_def prices counts len seed_sum seed_mean lo hi
    by (simp add: round_mean)
  with float_rounded show ?thesis
    by simp
qed

text \<open>
  A price of \<open>+Infinity\<close> passes the constraint on the price. Once such an item is
  stored, the statistics hold infinities and the request for them is answered with the
  internal error; the state is kept.
\<close>

lemma float_one: "float_of_rat 1 = Finite 1"
  by (rule float_of_rat_eq [where e = 0 and n = 4503599627370496]) (simp_all add: pow2_def)

lemma stats_request_infinite_price:
  "handle \<lparr>items_db = [\<lparr>nombre = str_of ''Teclado'', descripcion = None, precio = PosInf,
                          disponible = True, id' = 1, fecha_creacion = 0\<rparr>],
           next_id = 2\<rparr> GET_stats
   = (Inl UnhandledError,
      \<lparr>items_db = [\<lparr>nombre = str_of ''Teclado'', descripcion = None, precio = PosInf,
                     disponible = True, id' = 1, fecha_creacion = 0\<rparr>],
       next_id = 2\<rparr>)"
  by (simp add: obtener_estadisticas_def py_sum_def float_one render_stats_def)

end
